theory Spec2Isabelle
  imports Main "HOL-Library.Sublist" "HOL-Library.AList" "HOL-Library.Char_ord"
    "HOL-Library.List_Lexorder"
begin

section \<open>Strings\<close>

text \<open>
  A Python \<open>str\<close> is modelled by the bytes of its UTF-8 encoding, as a \<open>string\<close>.
  Prefix, suffix and substring tests and splitting at an ASCII character give the same
  answers on the encoding as on the code points.
\<close>

definition startswith :: "string \<Rightarrow> string \<Rightarrow> bool" where
  "startswith s p = prefix p s"

definition endswith :: "string \<Rightarrow> string \<Rightarrow> bool" where
  "endswith s p = prefix (rev p) (rev s)"

text \<open>
  \<open>lower\<close> folds the ASCII capitals.  It stands for \<open>str.lower()\<close> only where the
  result is compared with an ASCII literal (the \<open>.zip\<close> test and the denylist of
  extensions): no other character is lower-cased to a letter of these literals.  Where
  the program lower-cases text that it compares with other text, \<open>str.lower()\<close> is the
  parameter \<open>str_lower\<close> of the state.
\<close>

definition lower_char :: "char \<Rightarrow> char" where
  "lower_char c =
     (if 65 \<le> (of_char c :: nat) \<and> (of_char c :: nat) \<le> 90
      then char_of (of_char c + 32 :: nat) else c)"

definition lower :: "string \<Rightarrow> string" where
  "lower s = map lower_char s"

text \<open>
  \<open>str.strip()\<close> removes the characters for which \<open>str.isspace()\<close> holds: the ASCII
  ones (U+0009 to U+000D, U+001C to U+0020) and, given here by their UTF-8 bytes,
  U+0085, U+00A0, U+1680, U+2000 to U+200A, U+2028, U+2029, U+202F, U+205F and U+3000.
\<close>

definition is_space :: "char \<Rightarrow> bool" where
  "is_space c = ((of_char c :: nat) \<in> {9, 10, 11, 12, 13, 28, 29, 30, 31, 32})"

definition is_space2 :: "char \<Rightarrow> char \<Rightarrow> bool" where
  "is_space2 a b = (a = CHR 0xC2 \<and> (b = CHR 0x85 \<or> b = CHR 0xA0))"

definition is_space3 :: "char \<Rightarrow> char \<Rightarrow> char \<Rightarrow> bool" where
  "is_space3 a b c =
     ((a = CHR 0xE1 \<and> b = CHR 0x9A \<and> c = CHR 0x80)
      \<or> (a = CHR 0xE2 \<and> b = CHR 0x80
          \<and> ((128 \<le> (of_char c :: nat) \<and> (of_char c :: nat) \<le> 138)
               \<or> c = CHR 0xA8 \<or> c = CHR 0xA9 \<or> c = CHR 0xAF))
      \<or> (a = CHR 0xE2 \<and> b = CHR 0x81 \<and> c = CHR 0x9F)
      \<or> (a = CHR 0xE3 \<and> b = CHR 0x80 \<and> c = CHR 0x80))"

fun lstrip :: "string \<Rightarrow> string" where
  "lstrip (a # b # c # s) =
     (if is_space a then lstrip (b # c # s)
      else if is_space2 a b then lstrip (c # s)
      else if is_space3 a b c then lstrip s
      else a # b # c # s)"
| "lstrip [a, b] =
     (if is_space a then lstrip [b]
      else if is_space2 a b then []
      else [a, b])"
| "lstrip [a] = (if is_space a then [] else [a])"
| "lstrip [] = []"

text \<open>The same from the end, on the reversed string.\<close>

fun rstrip_rev :: "string \<Rightarrow> string" where
  "rstrip_rev (c # b # a # s) =
     (if is_space c then rstrip_rev (b # a # s)
      else if is_space2 b c then rstrip_rev (a # s)
      else if is_space3 a b c then rstrip_rev s
      else c # b # a # s)"
| "rstrip_rev [c, b] =
     (if is_space c then rstrip_rev [b]
      else if is_space2 b c then []
      else [c, b])"
| "rstrip_rev [c] = (if is_space c then [] else [c])"
| "rstrip_rev [] = []"

definition strip :: "string \<Rightarrow> string" where
  "strip s = rev (rstrip_rev (rev (lstrip s)))"

fun split_on :: "char \<Rightarrow> string \<Rightarrow> string list" where
  "split_on c [] = [[]]"
| "split_on c (x # xs) =
     (if x = c then [] # split_on c xs
      else (case split_on c xs of
              [] \<Rightarrow> [[x]]
            | w # ws \<Rightarrow> (x # w) # ws))"

fun join :: "string \<Rightarrow> string list \<Rightarrow> string" where
  "join sep [] = []"
| "join sep [x] = x"
| "join sep (x # y # ys) = x @ sep @ join sep (y # ys)"

text \<open>\<open>s.rfind(c)\<close>: the index of the last occurrence, \<open>None\<close> for Python's \<open>-1\<close>.\<close>

fun rfind :: "string \<Rightarrow> char \<Rightarrow> nat option" where
  "rfind [] c = None"
| "rfind (x # xs) c =
     (case rfind xs c of
        Some i \<Rightarrow> Some (Suc i)
      | None \<Rightarrow> (if x = c then Some 0 else None))"

section \<open>Paths and the file system\<close>

text \<open>
  \<open>pathlib.Path\<close> on POSIX: a pure path is its root flag and its components.
  Parsing drops empty components and \<open>.\<close> components and keeps \<open>..\<close>.
\<close>

record ppath =
  anchored :: bool
  parts :: "string list"

definition Path :: "string \<Rightarrow> ppath" where
  "Path s = \<lparr>anchored = startswith s ''/'',
             parts = filter (\<lambda>c. c \<noteq> [] \<and> c \<noteq> ''.'') (split_on (CHR ''/'') s)\<rparr>"

definition path_str :: "ppath \<Rightarrow> string" where
  "path_str p =
     (if anchored p then ''/'' @ join ''/'' (parts p)
      else if parts p = [] then ''.'' else join ''/'' (parts p))"

text \<open>\<open>a / b\<close>: an absolute right operand replaces the left one.\<close>

definition truediv :: "ppath \<Rightarrow> string \<Rightarrow> ppath" where
  "truediv a b =
     (let q = Path b in
      if anchored q then q else \<lparr>anchored = anchored a, parts = parts a @ parts q\<rparr>)"

definition parent :: "ppath \<Rightarrow> ppath" where
  "parent p = p\<lparr>parts := butlast (parts p)\<rparr>"

definition name :: "ppath \<Rightarrow> string" where
  "name p = (if parts p = [] then [] else last (parts p))"

text \<open>\<open>Path.suffix\<close>: the part of the name from its last dot, when that dot is
  neither the first nor the last character of the name.\<close>

definition suffix_of :: "ppath \<Rightarrow> string" where
  "suffix_of p =
     (case rfind (name p) (CHR ''.'') of
        None \<Rightarrow> []
      | Some i \<Rightarrow> (if 0 < i \<and> i < length (name p) - 1 then drop i (name p) else []))"

text \<open>
  The file system maps a canonical absolute location (its components from the root) to
  a node.  A symbolic link is recorded with the canonical location it leads to.  The
  root is a directory.
\<close>

datatype node = File string | Dir | Link "string list"

type_synonym filesystem = "(string list \<times> node) list"

definition node_at :: "filesystem \<Rightarrow> string list \<Rightarrow> node option" where
  "node_at fs p = (if p = [] then Some Dir else map_of fs p)"

text \<open>\<open>Path.resolve()\<close> (not strict): follows links component by component, takes
  \<open>..\<close> as the parent of what has been resolved so far, and keeps components that do
  not exist.\<close>

fun walk :: "filesystem \<Rightarrow> string list \<Rightarrow> string list \<Rightarrow> string list" where
  "walk fs cur [] = cur"
| "walk fs cur (s # ss) =
     (if s = ''..'' then walk fs (butlast cur) ss
      else (case node_at fs (cur @ [s]) of
              Some (Link t) \<Rightarrow> walk fs t ss
            | _ \<Rightarrow> walk fs (cur @ [s]) ss))"

definition resolve :: "filesystem \<Rightarrow> string list \<Rightarrow> ppath \<Rightarrow> ppath" where
  "resolve fs cwd p =
     \<lparr>anchored = True, parts = walk fs (if anchored p then [] else cwd) (parts p)\<rparr>"

text \<open>What the operating system finds at a path: every component on the way must be
  a directory (links are followed); the result is the canonical location and its node.\<close>

fun stat_walk :: "filesystem \<Rightarrow> string list \<Rightarrow> string list \<Rightarrow> (string list \<times> node) option" where
  "stat_walk fs cur [] = map_option (Pair cur) (node_at fs cur)"
| "stat_walk fs cur (s # ss) =
     (case node_at fs cur of
        Some Dir \<Rightarrow>
          (if s = ''..'' then stat_walk fs (butlast cur) ss
           else (case node_at fs (cur @ [s]) of
                   None \<Rightarrow> None
                 | Some (Link t) \<Rightarrow> stat_walk fs t ss
                 | Some n \<Rightarrow> stat_walk fs (cur @ [s]) ss))
      | _ \<Rightarrow> None)"

definition stat :: "filesystem \<Rightarrow> string list \<Rightarrow> ppath \<Rightarrow> (string list \<times> node) option" where
  "stat fs cwd p = stat_walk fs (if anchored p then [] else cwd) (parts p)"

definition exists :: "filesystem \<Rightarrow> string list \<Rightarrow> ppath \<Rightarrow> bool" where
  "exists fs cwd p = (stat fs cwd p \<noteq> None)"

datatype error =
    FileExistsError | NotADirectoryError | IsADirectoryError | FileNotFoundError
  | BadZipFile | IOError

text \<open>\<open>Path.mkdir(parents=True, exist_ok=True)\<close>: creates every missing directory on
  the way; fails where a component exists and is not a directory.\<close>

fun mkdirs :: "filesystem \<Rightarrow> string list \<Rightarrow> string list \<Rightarrow> error + filesystem" where
  "mkdirs fs cur [] = Inr fs"
| "mkdirs fs cur (s # ss) =
     (if s = ''..'' then mkdirs fs (butlast cur) ss
      else (case node_at fs (cur @ [s]) of
              None \<Rightarrow> mkdirs (AList.update (cur @ [s]) Dir fs) (cur @ [s]) ss
            | Some Dir \<Rightarrow> mkdirs fs (cur @ [s]) ss
            | Some (Link t) \<Rightarrow>
                (if node_at fs t = Some Dir then mkdirs fs t ss
                 else Inl (if ss = [] then FileExistsError else NotADirectoryError))
            | Some (File b) \<Rightarrow> Inl (if ss = [] then FileExistsError else NotADirectoryError)))"

definition mkdir_parents :: "filesystem \<Rightarrow> string list \<Rightarrow> ppath \<Rightarrow> error + filesystem" where
  "mkdir_parents fs cwd p = mkdirs fs (if anchored p then [] else cwd) (parts p)"

text \<open>\<open>open(target, "wb")\<close> followed by writing \<open>b\<close>: the parent must be an existing
  directory; a directory cannot be opened for writing; a link is written through.\<close>

definition open_write :: "filesystem \<Rightarrow> string list \<Rightarrow> ppath \<Rightarrow> string \<Rightarrow> error + filesystem" where
  "open_write fs cwd p b =
     (if parts p = [] then Inl IsADirectoryError
      else (case stat fs cwd (parent p) of
              Some (d, Dir) \<Rightarrow>
                (if name p = ''..'' then Inl IsADirectoryError
                 else (case node_at fs (d @ [name p]) of
                         Some Dir \<Rightarrow> Inl IsADirectoryError
                       | Some (Link t) \<Rightarrow>
                           (case node_at fs t of
                              Some Dir \<Rightarrow> Inl IsADirectoryError
                            | Some (Link u) \<Rightarrow> Inl FileNotFoundError
                            | _ \<Rightarrow> (if node_at fs (butlast t) = Some Dir \<and> t \<noteq> []
                                    then Inr (AList.update t (File b) fs)
                                    else Inl FileNotFoundError))
                       | _ \<Rightarrow> Inr (AList.update (d @ [name p]) (File b) fs)))
            | Some (d, n) \<Rightarrow> Inl NotADirectoryError
            | None \<Rightarrow> Inl FileNotFoundError))"

text \<open>\<open>shutil.rmtree(p, ignore_errors=True)\<close>: removes the directory at \<open>p\<close> and
  everything below it; it refuses a link and anything that is not a directory, and the
  refusal is ignored.\<close>

definition rmtree :: "filesystem \<Rightarrow> string list \<Rightarrow> ppath \<Rightarrow> filesystem" where
  "rmtree fs cwd p =
     (if parts p = [] \<or> name p = ''..'' then fs
      else (case stat fs cwd (parent p) of
              Some (d, Dir) \<Rightarrow>
                (if map_of fs (d @ [name p]) = Some Dir
                 then filter (\<lambda>(q, n). \<not> prefix (d @ [name p]) q) fs
                 else fs)
            | _ \<Rightarrow> fs))"


section \<open>The registry and its snapshot\<close>

text \<open>One \<open>meta\<close> dictionary of \<open>COURSES\<close>, with the keys \<open>ask_title\<close> gives it
  (\<open>"id"\<close> is \<open>course_id\<close> here).  The registry is a Python dictionary: an association
  list in insertion order; \<open>COURSES[k] = v\<close> is \<open>AList.update\<close>, which replaces in place
  or appends.\<close>

record course =
  course_id :: string
  owner :: int
  number :: string
  title :: string
  filename :: string
  path :: string
  token :: string
  created_at :: string

type_synonym registry = "(string \<times> course) list"

text \<open>\<open>json.dumps(COURSES, ensure_ascii=False, indent=2)\<close>.  A string is quoted; the
  quote, the backslash and the control characters are escaped and nothing else is.\<close>

definition hex_digit :: "nat \<Rightarrow> char" where
  "hex_digit n = (if n < 10 then char_of (48 + n) else char_of (87 + n))"

definition escape_char :: "char \<Rightarrow> string" where
  "escape_char c =
     (if c = CHR ''\"'' then [CHR 0x5C, CHR ''\"'']
      else if c = CHR 0x5C then [CHR 0x5C, CHR 0x5C]
      else if c = CHR 0x0A then [CHR 0x5C, CHR ''n'']
      else if c = CHR 0x0D then [CHR 0x5C, CHR ''r'']
      else if c = CHR 0x09 then [CHR 0x5C, CHR ''t'']
      else if c = CHR 0x08 then [CHR 0x5C, CHR ''b'']
      else if c = CHR 0x0C then [CHR 0x5C, CHR ''f'']
      else if (of_char c :: nat) < 32
        then [CHR 0x5C, CHR ''u'', CHR ''0'', CHR ''0'',
              hex_digit (of_char c div 16), hex_digit (of_char c mod 16)]
      else [c])"

definition encode_str :: "string \<Rightarrow> string" where
  "encode_str s = [CHR ''\"''] @ concat (map escape_char s) @ [CHR ''\"'']"

fun show_nat :: "nat \<Rightarrow> string" where
  "show_nat n =
     (if n < 10 then [char_of (48 + n)]
      else show_nat (n div 10) @ [char_of (48 + n mod 10)])"

definition show_int :: "int \<Rightarrow> string" where
  "show_int i = (if i < 0 then CHR ''-'' # show_nat (nat (- i)) else show_nat (nat i))"

definition newline_indent :: "nat \<Rightarrow> string" where
  "newline_indent level = CHR 0x0A # replicate (2 * level) (CHR '' '')"

text \<open>A dictionary at nesting depth \<open>level\<close>, from its keys and its encoded values.\<close>

definition dump_dict :: "nat \<Rightarrow> (string \<times> string) list \<Rightarrow> string" where
  "dump_dict level items =
     (if items = [] then ''{}''
      else ''{'' @ newline_indent (Suc level)
        @ join ('','' @ newline_indent (Suc level))
               (map (\<lambda>(k, v). encode_str k @ '': '' @ v) items)
        @ newline_indent level @ ''}'')"

definition dump_course :: "nat \<Rightarrow> course \<Rightarrow> string" where
  "dump_course level c =
     dump_dict level
       [(''id'', encode_str (course_id c)),
        (''owner'', show_int (owner c)),
        (''number'', encode_str (number c)),
        (''title'', encode_str (title c)),
        (''filename'', encode_str (filename c)),
        (''path'', encode_str (path c)),
        (''token'', encode_str (token c)),
        (''created_at'', encode_str (created_at c))]"

definition json_dumps :: "registry \<Rightarrow> string" where
  "json_dumps reg = dump_dict 0 (map (\<lambda>(k, c). (k, dump_course 1 c)) reg)"

section \<open>The state of the process\<close>

text \<open>What \<open>ZipFile(bio)\<close> makes of uploaded bytes: \<open>BadZip\<close> when it raises, else the
  members in \<open>infolist()\<close> order.  Opening a member may raise (\<open>Unreadable\<close>), and
  copying may fail after some bytes have been written (\<open>Truncated\<close>).\<close>

datatype member_data = Readable string | Unreadable | Truncated string

record zipinfo =
  member_filename :: string
  member_data :: member_data

datatype archive = BadZip | Zip "zipinfo list"

text \<open>The bytes that \<open>download_to_memory\<close> delivers: their number and their reading
  as an archive.\<close>

record blob =
  blob_len :: nat
  blob_zip :: archive

text \<open>An entry of \<open>TEMP_UPLOADS\<close>; the key \<open>"number"\<close> is absent until
  \<open>ask_number\<close> sets it.\<close>

record pending =
  upload_bytes :: blob
  upload_filename :: string
  uploader :: int
  upload_number :: "string option"

text \<open>The globals \<open>COURSES\<close> and \<open>TEMP_UPLOADS\<close>, the file system, the contents of
  \<open>DB_PATH\<close> (\<open>None\<close> when the file does not exist), the working directory that
  the relative \<open>DATA_DIR\<close> is read against, and the configured \<open>BASE_URL\<close>.  The last
  field is not a variable of the program: \<open>str_lower\<close> is the interpreter's
  \<open>str.lower()\<close>, whose table of cased letters is not in \<open>bot_server.py\<close>; what is
  proved holds for every such function.\<close>

record state =
  COURSES :: registry
  TEMP_UPLOADS :: "int \<rightharpoonup> pending"
  disk :: filesystem
  db_file :: "string option"
  work_dir :: "string list"
  BASE_URL :: string
  str_lower :: "string \<Rightarrow> string"

definition DATA_DIR :: ppath where
  "DATA_DIR = Path ''data/courses''"

definition MAX_ZIP_SIZE :: nat where
  "MAX_ZIP_SIZE = 200 * 1024 * 1024"

definition DISALLOWED_EXTS :: "string set" where
  "DISALLOWED_EXTS = {''.exe'', ''.dll'', ''.bat'', ''.sh'', ''.com'', ''.py''}"

definition save_db :: "state \<Rightarrow> state" where
  "save_db s = s\<lparr>db_file := Some (json_dumps (COURSES s))\<rparr>"

section \<open>The web routes\<close>

datatype response =
    Abort nat
  | SendFile "string list" string
  | Redirect string
  | Html string

text \<open>\<open>posixpath.normpath\<close> on the components of a relative path: \<open>x/..\<close> cancels
  lexically, a leading \<open>..\<close> stays.\<close>

fun normpath_comps :: "string list \<Rightarrow> string list \<Rightarrow> string list" where
  "normpath_comps acc [] = acc"
| "normpath_comps acc (c # cs) =
     (if c = [] \<or> c = ''.'' then normpath_comps acc cs
      else if c \<noteq> ''..'' \<or> acc = [] \<or> last acc = ''..'' then normpath_comps (acc @ [c]) cs
      else normpath_comps (butlast acc) cs)"

text \<open>Werkzeug's \<open>safe_join(directory, filename)\<close>: the normalised file name must
  not be absolute and must not start with \<open>..\<close>; the result is what
  \<open>posixpath.join\<close> gives.\<close>

definition safe_join :: "string \<Rightarrow> string \<Rightarrow> string option" where
  "safe_join directory fname =
     (let norm = (if fname = [] then []
                  else if startswith fname ''/''
                    then ''/'' @ join ''/'' (normpath_comps [] (split_on (CHR ''/'') fname))
                  else (case normpath_comps [] (split_on (CHR ''/'') fname) of
                          [] \<Rightarrow> ''.''
                        | cs \<Rightarrow> join ''/'' cs))
      in if startswith norm ''/'' \<or> norm = ''..'' \<or> startswith norm ''../'' then None
         else Some ((if directory = [] then ''.'' else directory)
                    @ (if endswith (if directory = [] then ''.'' else directory) ''/''
                       then [] else ''/'') @ norm))"

text \<open>Flask's \<open>send_from_directory(directory, filename)\<close>: \<open>safe_join\<close>, then the
  joined path must be a regular file, which is sent (\<open>SendFile\<close> carries the canonical
  location of the file that is read, and its bytes).\<close>

definition send_from_directory :: "filesystem \<Rightarrow> string list \<Rightarrow> ppath \<Rightarrow> string \<Rightarrow> response" where
  "send_from_directory fs cwd directory fname =
     (case safe_join (path_str directory) fname of
        None \<Rightarrow> Abort 404
      | Some p \<Rightarrow>
          (case stat fs cwd (Path p) of
             Some (loc, File b) \<Rightarrow> SendFile loc b
           | _ \<Rightarrow> Abort 404))"

text \<open>\<open>serve_course_file\<close>; \<open>tok\<close> is \<open>request.args.get("token")\<close>.\<close>

definition serve_course_file :: "state \<Rightarrow> string \<Rightarrow> string \<Rightarrow> string option \<Rightarrow> response" where
  "serve_course_file s cid fname tok =
     (case map_of (COURSES s) cid of
        None \<Rightarrow> Abort 404
      | Some meta \<Rightarrow>
          (if tok = None \<or> tok = Some [] \<or> tok \<noteq> Some (token meta) then Abort 403
           else
             let course_path = Path (path meta);
                 requested = resolve (disk s) (work_dir s) (truediv course_path fname)
             in if \<not> startswith (path_str requested)
                                 (path_str (resolve (disk s) (work_dir s) course_path))
                then Abort 403
                else if \<not> exists (disk s) (work_dir s) requested then Abort 404
                else send_from_directory (disk s) (work_dir s) course_path fname))"

definition index_names :: "string list" where
  "index_names = [''trainer/custom_trainer_cp/index.html'', ''context.html'', ''index.html'',
                  ''help/en-US/contents/start.htm'']"

text \<open>\<open>course_path.rglob("*.html")\<close>, each hit relative to \<open>course_path\<close> in POSIX
  form: the entries below the directory whose name ends in \<open>.html\<close>.\<close>

definition rglob_html :: "filesystem \<Rightarrow> string list \<Rightarrow> ppath \<Rightarrow> string list" where
  "rglob_html fs cwd p =
     (case stat fs cwd p of
        Some (d, Dir) \<Rightarrow>
          map (\<lambda>(q, n). join ''/'' (drop (length d) q))
            (filter (\<lambda>(q, n). strict_prefix d q \<and> endswith (last q) ''.html'') fs)
      | _ \<Rightarrow> [])"

definition listing_link :: "string \<Rightarrow> string \<Rightarrow> string \<Rightarrow> string" where
  "listing_link cid tk f =
     ''<a href='' @ [CHR 0x27] @ ''/courses/'' @ cid @ ''/'' @ f @ ''?token='' @ tk @ [CHR 0x27]
       @ '' target='' @ [CHR 0x27] @ ''_blank'' @ [CHR 0x27] @ ''>'' @ f @ ''</a>''"

definition serve_course_index :: "state \<Rightarrow> string \<Rightarrow> string option \<Rightarrow> response" where
  "serve_course_index s cid tok =
     (case map_of (COURSES s) cid of
        None \<Rightarrow> Abort 404
      | Some meta \<Rightarrow>
          (if tok = None \<or> tok = Some [] \<or> tok \<noteq> Some (token meta) then Abort 403
           else
             let course_path = Path (path meta) in
             (case filter (\<lambda>index_name. exists (disk s) (work_dir s) (truediv course_path index_name))
                     index_names of
                index_name # rest \<Rightarrow>
                  Redirect (''/courses/'' @ cid @ ''/'' @ path_str (Path index_name)
                            @ ''?token='' @ the tok)
              | [] \<Rightarrow>
                  Html (''<h3>Available HTML files:</h3>''
                        @ join ''<br>''
                            (map (listing_link cid (token meta))
                               (sort (rglob_html (disk s) (work_dir s) course_path)))))))"


section \<open>The chat handlers\<close>

text \<open>The messages the handlers send, by the line of \<open>bot_server.py\<close> that sends
  them.  \<open>Found\<close> carries, for each course shown, its text line and the URL of its
  button.\<close>

datatype reply =
    StartMsg
  | SendAsDocument
  | TooLarge
  | UnsupportedFormat
  | AskNumber
  | NoUpload
  | AskTitle
  | ExtractionFailed
  | Saved string string string string
  | NoCourses
  | Usage
  | NothingFound
  | Found "(string \<times> string) list"
  | Cancelled

text \<open>The value a conversation handler returns: \<open>ConversationHandler.END\<close> or the next
  state.\<close>

datatype conv_state = END | ASK_NUMBER | ASK_TITLE

text \<open>A handler either replies and returns, or raises an exception that nothing in
  \<open>bot_server.py\<close> catches.\<close>

datatype outcome = Replied reply conv_state | Raised error

text \<open>\<open>msg.document\<close>: the declared size and name are optional in the Bot API;
  \<open>payload\<close> is what \<open>get_file\<close> and \<open>download_to_memory\<close> deliver for it.\<close>

record document =
  file_size :: "nat option"
  file_name :: "string option"
  payload :: blob

definition recv_document :: "state \<Rightarrow> int \<Rightarrow> int \<Rightarrow> document option \<Rightarrow> state \<times> outcome" where
  "recv_document s chat_id user_id msg_document =
     (case msg_document of
        None \<Rightarrow> (s, Replied SendAsDocument END)
      | Some doc \<Rightarrow>
          (if (case file_size doc of None \<Rightarrow> False | Some n \<Rightarrow> n \<noteq> 0 \<and> n > MAX_ZIP_SIZE)
           then (s, Replied TooLarge END)
           else
             let fname = (case file_name doc of
                            None \<Rightarrow> ''upload.zip''
                          | Some f \<Rightarrow> (if f = [] then ''upload.zip'' else f))
             in if \<not> endswith (lower fname) ''.zip'' then (s, Replied UnsupportedFormat END)
                else (s\<lparr>TEMP_UPLOADS := (TEMP_UPLOADS s)(chat_id \<mapsto>
                          \<lparr>upload_bytes = payload doc, upload_filename = fname,
                           uploader = user_id, upload_number = None\<rparr>)\<rparr>,
                      Replied AskNumber ASK_NUMBER)))"

definition ask_number :: "state \<Rightarrow> int \<Rightarrow> string \<Rightarrow> state \<times> outcome" where
  "ask_number s chat_id text =
     (case TEMP_UPLOADS s chat_id of
        None \<Rightarrow> (s, Replied NoUpload END)
      | Some temp \<Rightarrow>
          (s\<lparr>TEMP_UPLOADS := (TEMP_UPLOADS s)(chat_id \<mapsto> temp\<lparr>upload_number := Some (strip text)\<rparr>)\<rparr>,
           Replied AskTitle ASK_TITLE))"

text \<open>The two safety tests of the extraction loop (lines 148 and 151).\<close>

definition unsafe_name :: "string \<Rightarrow> bool" where
  "unsafe_name nm = (startswith nm ''/'' \<or> ''..'' \<in> set (parts (Path nm)))"

definition disallowed_ext :: "string \<Rightarrow> bool" where
  "disallowed_ext nm = (lower (suffix_of (Path nm)) \<in> DISALLOWED_EXTS)"

text \<open>One turn of the loop over \<open>z.infolist()\<close>.  A failure carries the file system as
  it is when the exception is raised.\<close>

definition extract_member ::
  "filesystem \<Rightarrow> string list \<Rightarrow> ppath \<Rightarrow> zipinfo \<Rightarrow> (error \<times> filesystem) + filesystem" where
  "extract_member fs cwd course_dir m =
     (let nm = member_filename m in
      if unsafe_name nm then Inr fs
      else if disallowed_ext nm then Inr fs
      else
        let target = truediv course_dir nm in
        (case mkdir_parents fs cwd (parent target) of
           Inl e \<Rightarrow> Inl (e, fs)
         | Inr fs1 \<Rightarrow>
             (case member_data m of
                Unreadable \<Rightarrow> Inl (BadZipFile, fs1)
              | Readable b \<Rightarrow>
                  (case open_write fs1 cwd target b of
                     Inl e \<Rightarrow> Inl (e, fs1)
                   | Inr fs2 \<Rightarrow> Inr fs2)
              | Truncated b \<Rightarrow>
                  (case open_write fs1 cwd target b of
                     Inl e \<Rightarrow> Inl (e, fs1)
                   | Inr fs2 \<Rightarrow> Inl (IOError, fs2)))))"

fun extract_members ::
  "filesystem \<Rightarrow> string list \<Rightarrow> ppath \<Rightarrow> zipinfo list \<Rightarrow> (error \<times> filesystem) + filesystem" where
  "extract_members fs cwd course_dir [] = Inr fs"
| "extract_members fs cwd course_dir (m # ms) =
     (case extract_member fs cwd course_dir m of
        Inl failure \<Rightarrow> Inl failure
      | Inr fs1 \<Rightarrow> extract_members fs1 cwd course_dir ms)"

definition extract_archive ::
  "filesystem \<Rightarrow> string list \<Rightarrow> ppath \<Rightarrow> archive \<Rightarrow> (error \<times> filesystem) + filesystem" where
  "extract_archive fs cwd course_dir z =
     (case z of
        BadZip \<Rightarrow> Inl (BadZipFile, fs)
      | Zip ms \<Rightarrow> extract_members fs cwd course_dir ms)"

text \<open>What \<open>secrets.token_urlsafe\<close> and \<open>datetime.utcnow\<close> give one run of
  \<open>ask_title\<close>.\<close>

record entropy =
  new_course_id :: string
  new_token :: string
  utcnow :: string

definition webapp_url :: "state \<Rightarrow> string \<Rightarrow> string \<Rightarrow> string" where
  "webapp_url s cid tk = BASE_URL s @ ''/courses/'' @ cid @ ''/?token='' @ tk"

definition ask_title :: "state \<Rightarrow> int \<Rightarrow> string \<Rightarrow> entropy \<Rightarrow> state \<times> outcome" where
  "ask_title s chat_id text rnd =
     (case TEMP_UPLOADS s chat_id of
        None \<Rightarrow> (s, Replied NoUpload END)
      | Some temp \<Rightarrow>
          let s1 = s\<lparr>TEMP_UPLOADS := (TEMP_UPLOADS s)(chat_id := None)\<rparr>;
              num = (case upload_number temp of None \<Rightarrow> [] | Some n \<Rightarrow> n);
              ttl = strip text;
              cid = new_course_id rnd;
              course_dir = truediv DATA_DIR cid
          in (case mkdir_parents (disk s1) (work_dir s1) course_dir of
                Inl e \<Rightarrow> (s1, Raised e)
              | Inr fs1 \<Rightarrow>
                  (case extract_archive fs1 (work_dir s1) course_dir (blob_zip (upload_bytes temp)) of
                     Inl (e, fs2) \<Rightarrow>
                       (s1\<lparr>disk := rmtree fs2 (work_dir s1) course_dir\<rparr>,
                        Replied ExtractionFailed END)
                   | Inr fs2 \<Rightarrow>
                       let meta = \<lparr>course_id = cid, owner = uploader temp, number = num,
                                   title = ttl, filename = upload_filename temp,
                                   path = path_str (resolve fs2 (work_dir s1) course_dir),
                                   token = new_token rnd, created_at = utcnow rnd\<rparr>
                       in (save_db (s1\<lparr>disk := fs2,
                                       COURSES := AList.update cid meta (COURSES s1)\<rparr>),
                           Replied (Saved cid num ttl (webapp_url s cid (new_token rnd))) END))))"

text \<open>The line of text and the button URL that \<open>list_cmd\<close> and \<open>find_cmd\<close> show for a
  course (the button's caption repeats number and title).\<close>

definition course_entry :: "state \<Rightarrow> course \<Rightarrow> string \<times> string" where
  "course_entry s c =
     (number c @ [CHR '' '', CHR 0xE2, CHR 0x80, CHR 0x94, CHR '' ''] @ title c
        @ '' (ID: '' @ course_id c @ '')'',
      webapp_url s (course_id c) (token c))"

definition list_cmd :: "state \<Rightarrow> int \<Rightarrow> reply" where
  "list_cmd s user_id =
     (let user_courses = filter (\<lambda>c. owner c = user_id) (map snd (COURSES s))
      in if user_courses = [] then NoCourses
         else Found (map (course_entry s) (rev (sort_key created_at (rev user_courses)))))"

text \<open>The courses \<open>find_cmd\<close> selects for a query that is already joined, stripped and
  lowered (lines 199 and 200).\<close>

definition found_courses :: "state \<Rightarrow> int \<Rightarrow> string \<Rightarrow> course list" where
  "found_courses s user_id query =
     filter (\<lambda>c. sublist query (str_lower s (number c) @ '' '' @ str_lower s (title c)))
       (filter (\<lambda>c. owner c = user_id) (map snd (COURSES s)))"

definition find_cmd :: "state \<Rightarrow> int \<Rightarrow> string list \<Rightarrow> reply" where
  "find_cmd s user_id args =
     (let query = str_lower s (strip (join '' '' args))
      in if query = [] then Usage
         else let found = found_courses s user_id query
              in if found = [] then NothingFound
                 else Found (map (course_entry s) found))"

definition cancel :: "state \<Rightarrow> int \<Rightarrow> state \<times> outcome" where
  "cancel s chat_id = (s\<lparr>TEMP_UPLOADS := (TEMP_UPLOADS s)(chat_id := None)\<rparr>, Replied Cancelled END)"

section \<open>The conversation handler\<close>

text \<open>
  The updates the application receives, and how \<open>main\<close> wires them: the handlers of
  group 0 are tried in the order they were added, and the first that accepts an update
  handles it.  The conversation handler keeps one state per chat and user; without a
  state it accepts only its entry point (a document), with a state it accepts the
  handlers of that state and then the fallback \<open>/cancel\<close>.  \<open>conversation_timeout=300\<close>
  ends a conversation that has been idle for 300 seconds; \<open>states\<close> has no entry for
  \<open>ConversationHandler.TIMEOUT\<close>, so no handler of \<open>bot_server.py\<close> runs then.
\<close>

datatype event =
    DocumentMsg "document option"
  | TextMsg string
  | Command string "string list"
  | Timeout

record app =
  globals :: state
  conversations :: "int \<times> int \<Rightarrow> conv_state"

text \<open>After a handler of the conversation has run: a returned state is stored, an
  exception leaves the state of the conversation as it was.\<close>

definition conv_result :: "app \<Rightarrow> int \<times> int \<Rightarrow> state \<times> outcome \<Rightarrow> app \<times> reply option" where
  "conv_result a key r =
     (case snd r of
        Replied msg st \<Rightarrow>
          (\<lparr>globals = fst r, conversations = (conversations a)(key := st)\<rparr>, Some msg)
      | Raised e \<Rightarrow> (a\<lparr>globals := fst r\<rparr>, None))"

definition process_update :: "app \<Rightarrow> int \<Rightarrow> int \<Rightarrow> event \<Rightarrow> entropy \<Rightarrow> app \<times> reply option" where
  "process_update a chat_id user_id ev rnd =
     (let s = globals a; key = (chat_id, user_id); st = conversations a key in
      case ev of
        Timeout \<Rightarrow> (a\<lparr>conversations := (conversations a)(key := END)\<rparr>, None)
      | DocumentMsg d \<Rightarrow>
          (if st = END then conv_result a key (recv_document s chat_id user_id d)
           else (a, None))
      | TextMsg t \<Rightarrow>
          (if st = ASK_NUMBER then conv_result a key (ask_number s chat_id t)
           else if st = ASK_TITLE then conv_result a key (ask_title s chat_id t rnd)
           else (a, None))
      | Command c args \<Rightarrow>
          (if c = ''start'' then (a, Some StartMsg)
           else if c = ''cancel'' then
             (if st = END then (a\<lparr>globals := fst (cancel s chat_id)\<rparr>, Some Cancelled)
              else conv_result a key (cancel s chat_id))
           else if c = ''list'' then (a, Some (list_cmd s user_id))
           else if c = ''find'' then (a, Some (find_cmd s user_id args))
           else (a, None)))"


section \<open>Case-insensitive matching, as the specification words it\<close>





text \<open>The entries the extraction loop passes over: an absolute name, a name with a
  \<open>..\<close> component, or an extension of the denylist.\<close>

definition skipped :: "string \<Rightarrow> bool" where
  "skipped nm = (unsafe_name nm \<or> disallowed_ext nm)"

text \<open>\<open>keeps fs fs'\<close>: every directory and every link of \<open>fs\<close> is still there in
  \<open>fs'\<close>.\<close>

definition keeps :: "filesystem \<Rightarrow> filesystem \<Rightarrow> bool" where
  "keeps fs fs' =
     (\<forall>p. (node_at fs p = Some Dir \<longrightarrow> node_at fs' p = Some Dir)
        \<and> (\<forall>t. node_at fs p = Some (Link t) \<longrightarrow> node_at fs' p = Some (Link t)))"

section \<open>Example inputs\<close>

definition example_course :: course where
  "example_course =
     \<lparr>course_id = ''abc'', owner = 7, number = ''101'', title = ''Algebra I'',
      filename = ''a.zip'', path = ''/srv/data/courses/abc'', token = ''SeCrEt'',
      created_at = ''2024-01-01T00:00:00''\<rparr>"

definition empty_state :: state where
  "empty_state =
     \<lparr>COURSES = [], TEMP_UPLOADS = Map.empty, disk = [], db_file = None,
      work_dir = [''srv''], BASE_URL = ''https://example.org'', str_lower = lower\<rparr>"

definition one_course_state :: state where
  "one_course_state = empty_state\<lparr>COURSES := [(''abc'', example_course)]\<rparr>"

text \<open>A document that declares no size and whose download has one byte more than
  \<open>MAX_ZIP_SIZE\<close>.\<close>

definition undeclared_big_document :: document where
  "undeclared_big_document =
     \<lparr>file_size = None, file_name = Some ''big.zip'',
      payload = \<lparr>blob_len = 209715201, blob_zip = Zip []\<rparr>\<rparr>"

definition declared_big_document :: document where
  "declared_big_document =
     \<lparr>file_size = Some 209715201, file_name = Some ''big.zip'',
      payload = \<lparr>blob_len = 209715201, blob_zip = Zip []\<rparr>\<rparr>"

definition nameless_document :: document where
  "nameless_document =
     \<lparr>file_size = Some 1024, file_name = None,
      payload = \<lparr>blob_len = 1024, blob_zip = Zip []\<rparr>\<rparr>"

text \<open>A storage directory \<open>/srv/data/courses/abc\<close> that holds a symbolic link
  \<open>extra\<close> to its sibling \<open>/srv/data/courses/abcd\<close>, where a file lies.\<close>

definition linked_disk :: filesystem where
  "linked_disk =
     [([''srv''], Dir),
      ([''srv'', ''data''], Dir),
      ([''srv'', ''data'', ''courses''], Dir),
      ([''srv'', ''data'', ''courses'', ''abc''], Dir),
      ([''srv'', ''data'', ''courses'', ''abc'', ''index.html''], File ''<html>''),
      ([''srv'', ''data'', ''courses'', ''abc'', ''extra''],
         Link [''srv'', ''data'', ''courses'', ''abcd'']),
      ([''srv'', ''data'', ''courses'', ''abcd''], Dir),
      ([''srv'', ''data'', ''courses'', ''abcd'', ''secret.html''], File ''other'')]"

definition linked_state :: state where
  "linked_state = one_course_state\<lparr>disk := linked_disk\<rparr>"

definition example_entropy :: entropy where
  "example_entropy =
     \<lparr>new_course_id = ''Zq3xW7_pLk0'', new_token = ''tok-0123456789'',
      utcnow = ''2024-05-06T07:08:09''\<rparr>"

definition idle_app :: app where
  "idle_app = \<lparr>globals = empty_state, conversations = (\<lambda>key. END)\<rparr>"

text \<open>The application after chat 1 has sent a document and is asked for a number.\<close>

definition awaiting_app :: app where
  "awaiting_app =
     fst (process_update idle_app 1 1 (DocumentMsg (Some nameless_document)) example_entropy)"




text \<open>Chat 1 has uploaded an archive and given the number \<open>101\<close>; the data directory
  \<open>/srv/data/courses\<close> exists.  The archive of \<open>mixed_upload\<close> has two safe entries, one
  entry that climbs out of the storage directory and one executable; the archive of
  \<open>broken_upload\<close> has an entry whose copy breaks off.\<close>

definition data_disk :: filesystem where
  "data_disk =
     [([''srv''], Dir), ([''srv'', ''data''], Dir), ([''srv'', ''data'', ''courses''], Dir)]"




definition broken_upload :: pending where
  "broken_upload =
     \<lparr>upload_bytes = \<lparr>blob_len = 4096, blob_zip = Zip
        [\<lparr>member_filename = ''index.html'', member_data = Readable ''<html>''\<rparr>,
         \<lparr>member_filename = ''media/film.mp4'', member_data = Truncated ''ftyp''\<rparr>,
         \<lparr>member_filename = ''last.html'', member_data = Readable ''<p>''\<rparr>]\<rparr>,
      upload_filename = ''course.zip'', uploader = 7, upload_number = Some ''101''\<rparr>"

definition broken_state :: state where
  "broken_state = empty_state\<lparr>disk := data_disk, TEMP_UPLOADS := [1 \<mapsto> broken_upload]\<rparr>"



definition directory_upload :: pending where
  "directory_upload =
     \<lparr>upload_bytes = \<lparr>blob_len = 4096, blob_zip = Zip
        [\<lparr>member_filename = ''css/'', member_data = Readable []\<rparr>,
         \<lparr>member_filename = ''css/site.css'', member_data = Readable ''body''\<rparr>,
         \<lparr>member_filename = ''../../etc/evil'', member_data = Readable ''evil''\<rparr>]\<rparr>,
      upload_filename = ''course.zip'', uploader = 7, upload_number = Some ''101''\<rparr>"

definition directory_state :: state where
  "directory_state =
     empty_state\<lparr>disk := data_disk, TEMP_UPLOADS := [1 \<mapsto> directory_upload]\<rparr>"

section \<open>The token gate\<close>

text \<open>
  Claim C2.  For a course id that is in the registry, every token argument other than
  the stored token, and also the empty token and the absent one, is answered with 403
  by the file route and by the index route; so a request gets past the gate only with a
  non-empty token equal to the stored one.
\<close>

theorem token_gate:
  assumes "map_of (COURSES s) cid = Some meta"
    and "tok \<noteq> Some (token meta) \<or> tok = Some []"
  shows "serve_course_file s cid fname tok = Abort 403
       \<and> serve_course_index s cid tok = Abort 403"
  using assms by (auto simp: serve_course_file_def serve_course_index_def)

theorem token_gate_witness:
  "serve_course_file one_course_state ''abc'' ''index.html'' (Some ''secret'') = Abort 403
   \<and> serve_course_index one_course_state ''abc'' (Some ''secret'') = Abort 403"
  using token_gate [of one_course_state "''abc''" example_course "Some ''secret''" "''index.html''"]
  by (simp add: one_course_state_def empty_state_def example_course_def)

section \<open>Receiving a document\<close>

text \<open>
  Claim C5, as stated, fails: only the declared size is compared with the limit.  A
  document that declares no size and whose download is larger than \<open>MAX_ZIP_SIZE\<close> is
  accepted and stored as a pending upload.
\<close>

theorem actual_size_unchecked:
  "MAX_ZIP_SIZE < blob_len (payload undeclared_big_document)
   \<and> snd (recv_document empty_state 1 1 (Some undeclared_big_document))
       = Replied AskNumber ASK_NUMBER
   \<and> TEMP_UPLOADS (fst (recv_document empty_state 1 1 (Some undeclared_big_document))) 1
       \<noteq> None"
  by (simp add: recv_document_def undeclared_big_document_def empty_state_def
      MAX_ZIP_SIZE_def endswith_def lower_def lower_char_def)

text \<open>
  Claim C5, amended.  A document whose declared size exceeds \<open>MAX_ZIP_SIZE\<close> is
  rejected with the too-large message before anything is downloaded; the state is left
  as it was, so no pending upload and no storage directory is created.
\<close>

theorem declared_too_large:
  assumes "file_size doc = Some n" and "MAX_ZIP_SIZE < n"
  shows "recv_document s chat_id user_id (Some doc) = (s, Replied TooLarge END)"
  using assms by (simp add: recv_document_def)

theorem declared_too_large_witness:
  "recv_document empty_state 1 1 (Some declared_big_document)
     = (empty_state, Replied TooLarge END)"
  using declared_too_large [of declared_big_document 209715201 empty_state 1 1]
  by (simp add: declared_big_document_def MAX_ZIP_SIZE_def)

text \<open>
  Claim C10.  A document without a declared file name gets the name \<open>upload.zip\<close>: it
  is never rejected as an unsupported format, and unless its declared size is over the
  limit it becomes a pending upload under that name.
\<close>

theorem default_file_name:
  assumes "file_name doc = None"
  shows "snd (recv_document s chat_id user_id (Some doc)) \<noteq> Replied UnsupportedFormat END
    \<and> ((\<forall>n. file_size doc = Some n \<longrightarrow> n \<le> MAX_ZIP_SIZE) \<longrightarrow>
         recv_document s chat_id user_id (Some doc) =
           (s\<lparr>TEMP_UPLOADS := (TEMP_UPLOADS s)(chat_id \<mapsto>
               \<lparr>upload_bytes = payload doc, upload_filename = ''upload.zip'',
                uploader = user_id, upload_number = None\<rparr>)\<rparr>,
            Replied AskNumber ASK_NUMBER))"
  using assms
  by (auto simp: recv_document_def endswith_def lower_def lower_char_def split: option.splits)

theorem default_file_name_witness:
  "snd (recv_document empty_state 1 1 (Some nameless_document)) \<noteq> Replied UnsupportedFormat END
   \<and> recv_document empty_state 1 1 (Some nameless_document) =
       (empty_state\<lparr>TEMP_UPLOADS := (TEMP_UPLOADS empty_state)(1 \<mapsto>
           \<lparr>upload_bytes = payload nameless_document, upload_filename = ''upload.zip'',
            uploader = 1, upload_number = None\<rparr>)\<rparr>,
        Replied AskNumber ASK_NUMBER)"
  using default_file_name [of nameless_document empty_state 1 1]
  by (simp add: nameless_document_def MAX_ZIP_SIZE_def)

section \<open>The containment check of the file route\<close>

text \<open>
  Claim C1 fails on the code.  The check of line 70 compares the two resolved paths as
  strings, so a resolved path in a sibling directory whose name merely starts with the
  name of the storage directory passes it.  With a link from the storage directory
  \<open>/srv/data/courses/abc\<close> into \<open>/srv/data/courses/abcd\<close>, the request for
  \<open>extra/secret.html\<close> is answered with a file whose canonical location is not below
  the canonical storage directory.
\<close>

theorem served_outside_storage:
  "serve_course_file linked_state ''abc'' ''extra/secret.html'' (Some ''SeCrEt'')
     = SendFile [''srv'', ''data'', ''courses'', ''abcd'', ''secret.html''] ''other''
   \<and> parts (resolve (disk linked_state) (work_dir linked_state) (Path (path example_course)))
     = [''srv'', ''data'', ''courses'', ''abc'']
   \<and> \<not> prefix [''srv'', ''data'', ''courses'', ''abc'']
              [''srv'', ''data'', ''courses'', ''abcd'', ''secret.html'']"
  by code_simp

section \<open>The conversation timeout\<close>

text \<open>
  Claim C6 fails on the code.  When the conversation of chat 1, which waits for a
  number, times out, the conversation ends, but no handler runs and the entry of
  \<open>TEMP_UPLOADS\<close> for chat 1 stays where it is.
\<close>

theorem timeout_keeps_pending_upload:
  "conversations awaiting_app (1, 1) = ASK_NUMBER
   \<and> conversations (fst (process_update awaiting_app 1 1 Timeout example_entropy)) (1, 1) = END
   \<and> TEMP_UPLOADS (globals (fst (process_update awaiting_app 1 1 Timeout example_entropy))) 1
       = TEMP_UPLOADS (globals awaiting_app) 1
   \<and> TEMP_UPLOADS (globals awaiting_app) 1 \<noteq> None"
  by (simp add: awaiting_app_def idle_app_def process_update_def conv_result_def
      recv_document_def nameless_document_def empty_state_def MAX_ZIP_SIZE_def
      endswith_def lower_def lower_char_def)

section \<open>Finding courses\<close>









section \<open>Ingestion\<close>

subsection \<open>What extraction leaves in place\<close>

lemma keeps_refl: "keeps fs fs"
  by (simp add: keeps_def)

lemma keeps_trans: "keeps a b \<Longrightarrow> keeps b c \<Longrightarrow> keeps a c"
  by (simp add: keeps_def)

lemma node_at_update:
  "k \<noteq> [] \<Longrightarrow> node_at (AList.update k v fs) p = (if p = k then Some v else node_at fs p)"
  by (simp add: node_at_def update_conv')

lemma keeps_update_new:
  "k \<noteq> [] \<Longrightarrow> node_at fs k \<noteq> Some Dir \<Longrightarrow> (\<forall>t. node_at fs k \<noteq> Some (Link t))
     \<Longrightarrow> keeps fs (AList.update k v fs)"
  by (auto simp: keeps_def node_at_update)

lemma mkdirs_keeps: "mkdirs fs cur ss = Inr fs' \<Longrightarrow> keeps fs fs'"
proof (induction fs cur ss rule: mkdirs.induct)
  case (1 fs cur)
  then show ?case by (simp add: keeps_refl)
next
  case (2 fs cur s ss)
  show ?case
  proof (cases "s = ''..''")
    case True
    then show ?thesis using 2 by simp
  next
    case False
    show ?thesis
    proof (cases "node_at fs (cur @ [s])")
      case None
      then have "keeps fs (AList.update (cur @ [s]) Dir fs)"
        by (intro keeps_update_new) simp_all
      moreover have "keeps (AList.update (cur @ [s]) Dir fs) fs'"
        using 2 False None by simp
      ultimately show ?thesis by (rule keeps_trans)
    next
      case (Some n)
      then show ?thesis using 2 False by (cases n) (auto split: if_splits)
    qed
  qed
qed

lemma open_write_keeps: "open_write fs cwd p b = Inr fs' \<Longrightarrow> keeps fs fs'"
  unfolding open_write_def
  by (auto split: if_splits option.splits node.splits prod.splits intro!: keeps_update_new)

lemma extract_member_keeps:
  "extract_member fs cwd d m = Inr fs' \<or> extract_member fs cwd d m = Inl (e, fs') \<Longrightarrow> keeps fs fs'"
  unfolding extract_member_def Let_def mkdir_parents_def
  by (auto split: if_splits sum.splits member_data.splits
      intro: keeps_refl dest!: mkdirs_keeps open_write_keeps elim: keeps_trans)

lemma extract_members_keeps:
  "extract_members fs cwd d ms = Inr fs' \<or> extract_members fs cwd d ms = Inl (e, fs') \<Longrightarrow> keeps fs fs'"
proof (induction ms arbitrary: fs)
  case Nil
  then show ?case by (simp add: keeps_refl)
next
  case (Cons m ms)
  show ?case
  proof (cases "extract_member fs cwd d m")
    case (Inl failure)
    then have "failure = (e, fs')" using Cons.prems by simp
    then show ?thesis using Inl extract_member_keeps by blast
  next
    case (Inr fs1)
    then have "keeps fs fs1" using extract_member_keeps by blast
    moreover have "keeps fs1 fs'" using Cons Inr by simp
    ultimately show ?thesis by (rule keeps_trans)
  qed
qed

lemma stat_walk_keeps:
  "keeps fs fs' \<Longrightarrow> stat_walk fs cur ss = Some (d, Dir) \<Longrightarrow> stat_walk fs' cur ss = Some (d, Dir)"
proof (induction fs cur ss rule: stat_walk.induct)
  case (1 fs cur)
  then show ?case by (auto simp: keeps_def)
next
  case (2 fs cur s ss)
  from "2.prems" have cur: "node_at fs cur = Some Dir"
    by (auto split: option.splits node.splits)
  then have cur': "node_at fs' cur = Some Dir" using "2.prems"(1) by (simp add: keeps_def)
  show ?case
  proof (cases "s = ''..''")
    case True
    then show ?thesis using 2 cur cur' by simp
  next
    case False
    show ?thesis
    proof (cases "node_at fs (cur @ [s])")
      case None
      then show ?thesis using "2.prems" cur False by simp
    next
      case (Some n)
      show ?thesis
      proof (cases n)
        case (File b)
        have "stat_walk fs (cur @ [s]) ss = Some (d, Dir)"
          using "2.prems" cur False Some File by simp
        then have False using Some File by (cases ss) (auto simp: split: option.splits)
        then show ?thesis ..
      next
        case Dir
        then have "node_at fs' (cur @ [s]) = Some Dir"
          using Some "2.prems"(1) by (simp add: keeps_def)
        then show ?thesis using 2 cur cur' False Some Dir by simp
      next
        case (Link t)
        then have "node_at fs' (cur @ [s]) = Some (Link t)"
          using Some "2.prems"(1) by (simp add: keeps_def)
        then show ?thesis using 2 cur cur' False Some Link by simp
      qed
    qed
  qed
qed

lemma stat_walk_dir: "stat_walk fs cur ss = Some (d, n) \<Longrightarrow> node_at fs cur = Some Dir \<or> ss = []"
  by (cases ss) (auto split: option.splits node.splits)

lemma mkdirs_along:
  "stat_walk fs cur ss = Some (d, Dir) \<Longrightarrow> mkdirs fs cur (ss @ rest) = mkdirs fs d rest"
proof (induction fs cur ss rule: stat_walk.induct)
  case (1 fs cur)
  then show ?case by auto
next
  case (2 fs cur s ss)
  from "2.prems" have cur: "node_at fs cur = Some Dir"
    by (auto split: option.splits node.splits)
  show ?case
  proof (cases "s = ''..''")
    case True
    then show ?thesis using 2 cur by simp
  next
    case False
    show ?thesis
    proof (cases "node_at fs (cur @ [s])")
      case None
      then show ?thesis using "2.prems" cur False by simp
    next
      case (Some n)
      show ?thesis
      proof (cases n)
        case (File b)
        have "stat_walk fs (cur @ [s]) ss = Some (d, Dir)"
          using "2.prems" cur False Some File by simp
        then have False using Some File by (cases ss) (auto simp: split: option.splits)
        then show ?thesis ..
      next
        case Dir
        then show ?thesis using 2 cur False Some by simp
      next
        case (Link t)
        have st: "stat_walk fs t ss = Some (d, Dir)"
          using "2.prems" cur False Some Link by simp
        then have "node_at fs t = Some Dir"
          by (cases ss) (auto split: option.splits node.splits)
        then show ?thesis using 2 cur False Some Link st by simp
      qed
    qed
  qed
qed

subsection \<open>Entries that are passed over\<close>







text \<open>An archive that lists a directory before a file in it is not extracted either:
  the directory entry is written as an empty file, and making the parent directory of
  the next entry fails.  The amended claim leaves this case open.\<close>

lemma directory_entry_blocks_its_files:
  "\<not> skipped ''css/'' \<and> \<not> skipped ''css/site.css''
   \<and> snd (ask_title directory_state 1 ''Algebra I'' example_entropy)
       = Replied ExtractionFailed END
   \<and> COURSES (fst (ask_title directory_state 1 ''Algebra I'' example_entropy)) = []"
  by code_simp

subsection \<open>Rollback\<close>

lemma split_on_no_sep: "c \<notin> set s \<Longrightarrow> split_on c s = [s]"
  by (induction s) auto

lemma Path_plain:
  assumes "CHR ''/'' \<notin> set cid" and "cid \<noteq> []" and "cid \<noteq> ''.''"
  shows "Path cid = \<lparr>anchored = False, parts = [cid]\<rparr>"
  using assms by (cases cid) (auto simp: Path_def startswith_def split_on_no_sep)

lemma DATA_DIR_parts: "DATA_DIR = \<lparr>anchored = False, parts = [''data'', ''courses'']\<rparr>"
  by (simp add: DATA_DIR_def Path_def startswith_def)

lemma extract_archive_keeps:
  "extract_archive fs cwd d z = Inl (e, fs') \<Longrightarrow> keeps fs fs'"
  using extract_members_keeps [of fs cwd d _ fs' e]
  by (auto simp: extract_archive_def keeps_refl split: archive.splits)

text \<open>
  Claim C3.  Let the data directory exist and the new id be a plain name that names
  nothing in it yet.  When the extraction into the freshly made storage directory fails,
  whether the archive is unreadable or an entry cannot be opened or copied, \<open>ask_title\<close>
  answers with the extraction error, the registry and its snapshot are as before, the
  pending upload is gone, and no entry of the file system lies at or below the storage
  directory.
\<close>

theorem extraction_failure_rolls_back:
  assumes pend: "TEMP_UPLOADS s chat_id = Some temp"
    and data_dir: "stat (disk s) (work_dir s) DATA_DIR = Some (dd, Dir)"
    and fresh: "map_of (disk s) (dd @ [new_course_id rnd]) = None"
    and plain: "CHR ''/'' \<notin> set (new_course_id rnd)"
               "new_course_id rnd \<notin> {[], ''.'', ''..''}"
    and fails: "extract_archive (AList.update (dd @ [new_course_id rnd]) Dir (disk s))
                  (work_dir s) (truediv DATA_DIR (new_course_id rnd))
                  (blob_zip (upload_bytes temp)) = Inl (e, fs2)"
  shows "snd (ask_title s chat_id text rnd) = Replied ExtractionFailed END
       \<and> COURSES (fst (ask_title s chat_id text rnd)) = COURSES s
       \<and> db_file (fst (ask_title s chat_id text rnd)) = db_file s
       \<and> TEMP_UPLOADS (fst (ask_title s chat_id text rnd)) chat_id = None
       \<and> (\<forall>(q, n) \<in> set (disk (fst (ask_title s chat_id text rnd))).
             \<not> prefix (dd @ [new_course_id rnd]) q)"
proof -
  let ?cid = "new_course_id rnd"
  let ?dir = "truediv DATA_DIR ?cid"
  let ?fs1 = "AList.update (dd @ [?cid]) Dir (disk s)"
  have dir: "?dir = \<lparr>anchored = False, parts = [''data'', ''courses'', ?cid]\<rparr>"
    using plain by (simp add: truediv_def Path_plain DATA_DIR_parts)
  have walk: "stat_walk (disk s) (work_dir s) [''data'', ''courses''] = Some (dd, Dir)"
    using data_dir by (simp add: stat_def DATA_DIR_parts)
  have "mkdirs (disk s) (work_dir s) ([''data'', ''courses''] @ [?cid]) = mkdirs (disk s) dd [?cid]"
    using walk by (rule mkdirs_along)
  then have mk: "mkdir_parents (disk s) (work_dir s) ?dir = Inr ?fs1"
    using fresh plain by (simp add: mkdir_parents_def dir node_at_def)
  have "keeps (disk s) ?fs1"
    using mk by (auto simp: mkdir_parents_def dest: mkdirs_keeps)
  moreover have "keeps ?fs1 fs2"
    using fails by (rule extract_archive_keeps)
  ultimately have k: "keeps (disk s) fs2"
    by (rule keeps_trans)
  have "node_at ?fs1 (dd @ [?cid]) = Some Dir"
    by (simp add: node_at_update)
  then have "node_at fs2 (dd @ [?cid]) = Some Dir"
    using \<open>keeps ?fs1 fs2\<close> by (simp add: keeps_def)
  then have here: "map_of fs2 (dd @ [?cid]) = Some Dir"
    by (simp add: node_at_def)
  have "stat_walk fs2 (work_dir s) [''data'', ''courses''] = Some (dd, Dir)"
    using k walk by (rule stat_walk_keeps)
  then have up: "stat fs2 (work_dir s) (parent ?dir) = Some (dd, Dir)"
    by (simp add: stat_def parent_def dir)
  have rm: "rmtree fs2 (work_dir s) ?dir = filter (\<lambda>(q, n). \<not> prefix (dd @ [?cid]) q) fs2"
    using up here plain by (simp add: rmtree_def name_def dir)
  show ?thesis
    using pend mk fails by (auto simp: ask_title_def Let_def rm)
qed

theorem extraction_failure_rolls_back_witness:
  "snd (ask_title broken_state 1 '' Algebra I '' example_entropy) = Replied ExtractionFailed END
   \<and> COURSES (fst (ask_title broken_state 1 '' Algebra I '' example_entropy)) = []
   \<and> db_file (fst (ask_title broken_state 1 '' Algebra I '' example_entropy)) = None
   \<and> TEMP_UPLOADS (fst (ask_title broken_state 1 '' Algebra I '' example_entropy)) 1 = None
   \<and> disk (fst (ask_title broken_state 1 '' Algebra I '' example_entropy)) = data_disk"
proof -
  have h1: "TEMP_UPLOADS broken_state 1 = Some broken_upload"
    by (simp add: broken_state_def)
  have h2: "stat (disk broken_state) (work_dir broken_state) DATA_DIR
              = Some ([''srv'', ''data'', ''courses''], Dir)"
    by code_simp
  have h3: "map_of (disk broken_state)
              ([''srv'', ''data'', ''courses''] @ [new_course_id example_entropy]) = None"
    by code_simp
  have h4: "CHR ''/'' \<notin> set (new_course_id example_entropy)"
    by code_simp
  have h5: "new_course_id example_entropy \<notin> {[], ''.'', ''..''}"
    by (simp add: example_entropy_def)
  have h6: "extract_archive
              (AList.update ([''srv'', ''data'', ''courses''] @ [new_course_id example_entropy])
                 Dir (disk broken_state))
              (work_dir broken_state) (truediv DATA_DIR (new_course_id example_entropy))
              (blob_zip (upload_bytes broken_upload))
            = Inl (IOError,
                [([''srv''], Dir), ([''srv'', ''data''], Dir),
                 ([''srv'', ''data'', ''courses''], Dir),
                 ([''srv'', ''data'', ''courses'', ''Zq3xW7_pLk0''], Dir),
                 ([''srv'', ''data'', ''courses'', ''Zq3xW7_pLk0'', ''index.html''],
                  File ''<html>''),
                 ([''srv'', ''data'', ''courses'', ''Zq3xW7_pLk0'', ''media''], Dir),
                 ([''srv'', ''data'', ''courses'', ''Zq3xW7_pLk0'', ''media'', ''film.mp4''],
                  File ''ftyp'')])"
    by code_simp
  have c: "COURSES broken_state = []" "db_file broken_state = None"
    by (simp_all add: broken_state_def empty_state_def)
  have d: "disk (fst (ask_title broken_state 1 '' Algebra I '' example_entropy)) = data_disk"
    by code_simp
  show ?thesis
    using extraction_failure_rolls_back [OF h1 h2 h3 h4 h5 h6, of "'' Algebra I ''"]
    by (simp add: c d)
qed

end
